theory Spec2Isabelle
  imports Main
begin

section \<open>Python values used by \<open>fpga_types.py\<close>\<close>

text \<open>
  Strings are \<open>string\<close>. \<open>str(n)\<close> of a Python integer is \<open>str_int\<close>: the decimal
  digits, with a leading minus sign for a negative number.
\<close>

definition digit_chars :: string where
  "digit_chars = ''0123456789''"

fun str_nat :: "nat \<Rightarrow> string" where
  "str_nat n =
     (if n < 10 then [digit_chars ! n]
      else str_nat (n div 10) @ [digit_chars ! (n mod 10)])"

declare str_nat.simps [simp del]

definition str_int :: "int \<Rightarrow> string" where
  "str_int i = (if i < 0 then ''-'' @ str_nat (nat (- i)) else str_nat (nat i))"

text \<open>\<open>str(b).lower()\<close> of a Python bool.\<close>

definition str_bool_lower :: "bool \<Rightarrow> string" where
  "str_bool_lower b = (if b then ''true'' else ''false'')"

text \<open>\<open>sep.join(xs)\<close>.\<close>

fun join :: "string \<Rightarrow> string list \<Rightarrow> string" where
  "join sep [] = []"
| "join sep [x] = x"
| "join sep (x # y # ys) = x @ sep @ join sep (y # ys)"

text \<open>\<open>s.startswith(p)\<close>.\<close>

definition startswith :: "string \<Rightarrow> string \<Rightarrow> bool" where
  "startswith s p = (take (length p) s = p)"

text \<open>The entries of a list that are not \<open>None\<close>.\<close>

fun drop_none :: "'a option list \<Rightarrow> 'a list" where
  "drop_none [] = []"
| "drop_none (None # xs) = drop_none xs"
| "drop_none (Some x # xs) = x # drop_none xs"

definition newline :: string where
  "newline = [CHR 0x0A]"

text \<open>
  The exceptions the file can raise: the two \<open>raise Exception(msg)\<close> of the converters,
  the \<open>assert\<close> of \<open>StructMemberVariable\<close>, \<open>NotImplementedError\<close> of the converter base
  class, \<open>IndexError\<close> of \<open>shape[-1]\<close> on an empty shape, and \<open>AttributeError\<close> for an
  attribute or method an object does not have.
\<close>

datatype error =
    Exception string
  | AssertionError string
  | NotImplementedError
  | IndexError
  | AttributeError string

section \<open>Precision types\<close>

text \<open>
  One constructor for each class: the four classes imported from
  \<open>hls4ml.model.hls_types\<close>, their four \<open>AP\<close> and four \<open>AC\<close> subclasses defined in the
  file, and \<open>OtherPrecisionType n\<close> for an object of any other class, named \<open>n\<close>.
  The arguments are the attributes the file reads: \<open>width\<close> and \<open>signed\<close>, and for the
  fixed-point classes \<open>width\<close>, \<open>integer\<close>, \<open>signed\<close>, \<open>rounding_mode\<close>,
  \<open>saturation_mode\<close>, \<open>saturation_bits\<close>. A rounding or saturation mode is the
  string that \<open>str(mode)\<close> gives.

  Modelled from the spec: the constructors of the imported classes, which the eight
  subclasses inherit and \<open>from_precision\<close> calls as \<open>cls(width=..., signed=...)\<close>.
  They keep their arguments as the attributes of the same names.
\<close>

datatype precision_type =
    XnorPrecisionType
  | IntegerPrecisionType int bool
  | ExponentPrecisionType int bool
  | FixedPrecisionType int int bool "string option" "string option" "int option"
  | APXnorPrecisionType
  | APIntegerPrecisionType int bool
  | APExponentPrecisionType int bool
  | APFixedPrecisionType int int bool "string option" "string option" "int option"
  | ACXnorPrecisionType
  | ACIntegerPrecisionType int bool
  | ACExponentPrecisionType int bool
  | ACFixedPrecisionType int int bool "string option" "string option" "int option"
  | OtherPrecisionType string

text \<open>\<open>type(p).__name__\<close>.\<close>

fun class_name :: "precision_type \<Rightarrow> string" where
  "class_name XnorPrecisionType = ''XnorPrecisionType''"
| "class_name (IntegerPrecisionType w s) = ''IntegerPrecisionType''"
| "class_name (ExponentPrecisionType w s) = ''ExponentPrecisionType''"
| "class_name (FixedPrecisionType w i s r m b) = ''FixedPrecisionType''"
| "class_name APXnorPrecisionType = ''APXnorPrecisionType''"
| "class_name (APIntegerPrecisionType w s) = ''APIntegerPrecisionType''"
| "class_name (APExponentPrecisionType w s) = ''APExponentPrecisionType''"
| "class_name (APFixedPrecisionType w i s r m b) = ''APFixedPrecisionType''"
| "class_name ACXnorPrecisionType = ''ACXnorPrecisionType''"
| "class_name (ACIntegerPrecisionType w s) = ''ACIntegerPrecisionType''"
| "class_name (ACExponentPrecisionType w s) = ''ACExponentPrecisionType''"
| "class_name (ACFixedPrecisionType w i s r m b) = ''ACFixedPrecisionType''"
| "class_name (OtherPrecisionType n) = n"

text \<open>
  Modelled from the spec: the constructor of \<open>XnorPrecisionType\<close>, which is not in the
  file. \<open>APXnorPrecisionType.from_precision\<close> calls \<open>cls()\<close> with no argument, so the
  \<open>width\<close> and \<open>signed\<close> its renderer reads are that constructor's values; the spec
  gives a single unsigned bit.
\<close>

definition xnor_width :: int where
  "xnor_width = 1"

definition xnor_signed :: bool where
  "xnor_signed = False"

text \<open>
  Attribute reads \<open>p.width\<close>, \<open>p.signed\<close> and the reads of the fixed-point attributes;
  \<open>None\<close> is \<open>AttributeError\<close>. The fixed-point attributes \<open>integer\<close>,
  \<open>rounding_mode\<close>, \<open>saturation_mode\<close>, \<open>saturation_bits\<close> are read together.
\<close>

fun get_width :: "precision_type \<Rightarrow> int option" where
  "get_width XnorPrecisionType = Some xnor_width"
| "get_width (IntegerPrecisionType w s) = Some w"
| "get_width (ExponentPrecisionType w s) = Some w"
| "get_width (FixedPrecisionType w i s r m b) = Some w"
| "get_width APXnorPrecisionType = Some xnor_width"
| "get_width (APIntegerPrecisionType w s) = Some w"
| "get_width (APExponentPrecisionType w s) = Some w"
| "get_width (APFixedPrecisionType w i s r m b) = Some w"
| "get_width ACXnorPrecisionType = Some xnor_width"
| "get_width (ACIntegerPrecisionType w s) = Some w"
| "get_width (ACExponentPrecisionType w s) = Some w"
| "get_width (ACFixedPrecisionType w i s r m b) = Some w"
| "get_width (OtherPrecisionType n) = None"

fun get_signed :: "precision_type \<Rightarrow> bool option" where
  "get_signed XnorPrecisionType = Some xnor_signed"
| "get_signed (IntegerPrecisionType w s) = Some s"
| "get_signed (ExponentPrecisionType w s) = Some s"
| "get_signed (FixedPrecisionType w i s r m b) = Some s"
| "get_signed APXnorPrecisionType = Some xnor_signed"
| "get_signed (APIntegerPrecisionType w s) = Some s"
| "get_signed (APExponentPrecisionType w s) = Some s"
| "get_signed (APFixedPrecisionType w i s r m b) = Some s"
| "get_signed ACXnorPrecisionType = Some xnor_signed"
| "get_signed (ACIntegerPrecisionType w s) = Some s"
| "get_signed (ACExponentPrecisionType w s) = Some s"
| "get_signed (ACFixedPrecisionType w i s r m b) = Some s"
| "get_signed (OtherPrecisionType n) = None"

fun get_fixed :: "precision_type \<Rightarrow> (int \<times> string option \<times> string option \<times> int option) option" where
  "get_fixed (FixedPrecisionType w i s r m b) = Some (i, r, m, b)"
| "get_fixed (APFixedPrecisionType w i s r m b) = Some (i, r, m, b)"
| "get_fixed (ACFixedPrecisionType w i s r m b) = Some (i, r, m, b)"
| "get_fixed p = None"

subsection \<open>The bounded-width (\<open>ap_\<close>) classes\<close>

definition APIntegerPrecisionType_definition_cpp :: "int \<Rightarrow> bool \<Rightarrow> string" where
  "APIntegerPrecisionType_definition_cpp w s =
     ''ap_'' @ (if \<not> s then ''u'' else '''') @ ''int<'' @ str_int w @ ''>''"

definition AP_rounding_mode_cpp :: "string option \<Rightarrow> string option" where
  "AP_rounding_mode_cpp mode = (case mode of None \<Rightarrow> None | Some m \<Rightarrow> Some (''AP_'' @ m))"

definition AP_saturation_mode_cpp :: "string option \<Rightarrow> string option" where
  "AP_saturation_mode_cpp mode = (case mode of None \<Rightarrow> None | Some m \<Rightarrow> Some (''AP_'' @ m))"

definition APFixedPrecisionType_definition_cpp ::
  "int \<Rightarrow> int \<Rightarrow> bool \<Rightarrow> string option \<Rightarrow> string option \<Rightarrow> int option \<Rightarrow> string" where
  "APFixedPrecisionType_definition_cpp w i s r m b =
     (let args = [Some (str_int w), Some (str_int i), AP_rounding_mode_cpp r,
                  AP_saturation_mode_cpp m, map_option str_int b]
      in ''ap_'' @ (if \<not> s then ''u'' else '''') @ ''fixed<'' @ join '','' (drop_none args) @ ''>'')"

definition APIntegerPrecisionType_from_precision :: "precision_type \<Rightarrow> error + precision_type" where
  "APIntegerPrecisionType_from_precision p =
     (case (get_width p, get_signed p) of
        (Some w, Some s) \<Rightarrow> Inr (APIntegerPrecisionType w s)
      | _ \<Rightarrow> Inl (AttributeError (class_name p)))"

definition APFixedPrecisionType_from_precision :: "precision_type \<Rightarrow> error + precision_type" where
  "APFixedPrecisionType_from_precision p =
     (case (get_width p, get_signed p, get_fixed p) of
        (Some w, Some s, Some (i, r, m, b)) \<Rightarrow> Inr (APFixedPrecisionType w i s r m b)
      | _ \<Rightarrow> Inl (AttributeError (class_name p)))"

definition APXnorPrecisionType_from_precision :: "precision_type \<Rightarrow> error + precision_type" where
  "APXnorPrecisionType_from_precision p = Inr APXnorPrecisionType"

definition APExponentPrecisionType_from_precision :: "precision_type \<Rightarrow> error + precision_type" where
  "APExponentPrecisionType_from_precision p =
     (case (get_width p, get_signed p) of
        (Some w, Some s) \<Rightarrow> Inr (APExponentPrecisionType w s)
      | _ \<Rightarrow> Inl (AttributeError (class_name p)))"

subsection \<open>The algorithmic (\<open>ac_\<close>) classes\<close>

definition ACIntegerPrecisionType_definition_cpp :: "int \<Rightarrow> bool \<Rightarrow> string" where
  "ACIntegerPrecisionType_definition_cpp w s =
     ''ac_int<'' @ str_int w @ '', '' @ str_bool_lower s @ ''>''"

definition AC_rounding_mode_cpp :: "string option \<Rightarrow> string option" where
  "AC_rounding_mode_cpp mode = (case mode of None \<Rightarrow> None | Some m \<Rightarrow> Some (''AC_'' @ m))"

definition AC_saturation_mode_cpp :: "string option \<Rightarrow> string option" where
  "AC_saturation_mode_cpp mode = (case mode of None \<Rightarrow> None | Some m \<Rightarrow> Some (''AC_'' @ m))"

definition ACFixedPrecisionType_definition_cpp ::
  "int \<Rightarrow> int \<Rightarrow> bool \<Rightarrow> string option \<Rightarrow> string option \<Rightarrow> int option \<Rightarrow> string" where
  "ACFixedPrecisionType_definition_cpp w i s r m b =
     (let args = [Some (str_int w), Some (str_int i), Some (str_bool_lower s),
                  AC_rounding_mode_cpp r, AC_saturation_mode_cpp m, map_option str_int b]
      in ''ac_fixed<'' @ join '','' (drop_none args) @ ''>'')"

definition ACIntegerPrecisionType_from_precision :: "precision_type \<Rightarrow> error + precision_type" where
  "ACIntegerPrecisionType_from_precision p =
     (case (get_width p, get_signed p) of
        (Some w, Some s) \<Rightarrow> Inr (ACIntegerPrecisionType w s)
      | _ \<Rightarrow> Inl (AttributeError (class_name p)))"

definition ACFixedPrecisionType_from_precision :: "precision_type \<Rightarrow> error + precision_type" where
  "ACFixedPrecisionType_from_precision p =
     (case (get_width p, get_signed p, get_fixed p) of
        (Some w, Some s, Some (i, r, m, b)) \<Rightarrow> Inr (ACFixedPrecisionType w i s r m b)
      | _ \<Rightarrow> Inl (AttributeError (class_name p)))"

definition ACXnorPrecisionType_from_precision :: "precision_type \<Rightarrow> error + precision_type" where
  "ACXnorPrecisionType_from_precision p = Inr ACXnorPrecisionType"

definition ACExponentPrecisionType_from_precision :: "precision_type \<Rightarrow> error + precision_type" where
  "ACExponentPrecisionType_from_precision p =
     (case (get_width p, get_signed p) of
        (Some w, Some s) \<Rightarrow> Inr (ACExponentPrecisionType w s)
      | _ \<Rightarrow> Inl (AttributeError (class_name p)))"

subsection \<open>Method dispatch of \<open>definition_cpp\<close> on a precision object\<close>

text \<open>
  \<open>p.definition_cpp()\<close>: the file defines the method on its eight classes only (the
  \<open>Xnor\<close> and \<open>Exponent\<close> classes reuse the \<open>Integer\<close> renderer of their dialect);
  for any other object the call is an \<open>AttributeError\<close> here.
\<close>

fun definition_cpp_precision :: "precision_type \<Rightarrow> error + string" where
  "definition_cpp_precision (APIntegerPrecisionType w s) =
     Inr (APIntegerPrecisionType_definition_cpp w s)"
| "definition_cpp_precision (APFixedPrecisionType w i s r m b) =
     Inr (APFixedPrecisionType_definition_cpp w i s r m b)"
| "definition_cpp_precision APXnorPrecisionType =
     Inr (APIntegerPrecisionType_definition_cpp xnor_width xnor_signed)"
| "definition_cpp_precision (APExponentPrecisionType w s) =
     Inr (APIntegerPrecisionType_definition_cpp w s)"
| "definition_cpp_precision (ACIntegerPrecisionType w s) =
     Inr (ACIntegerPrecisionType_definition_cpp w s)"
| "definition_cpp_precision (ACFixedPrecisionType w i s r m b) =
     Inr (ACFixedPrecisionType_definition_cpp w i s r m b)"
| "definition_cpp_precision ACXnorPrecisionType =
     Inr (ACIntegerPrecisionType_definition_cpp xnor_width xnor_signed)"
| "definition_cpp_precision (ACExponentPrecisionType w s) =
     Inr (ACIntegerPrecisionType_definition_cpp w s)"
| "definition_cpp_precision p = Inl (AttributeError ''definition_cpp'')"

subsection \<open>The precision converters\<close>

definition APTypeConverter_convert :: "precision_type \<Rightarrow> error + precision_type" where
  "APTypeConverter_convert precision_type =
     (if startswith (class_name precision_type) ''AP'' then Inr precision_type
      else (case precision_type of
              XnorPrecisionType \<Rightarrow> APXnorPrecisionType_from_precision precision_type
            | IntegerPrecisionType w s \<Rightarrow> APIntegerPrecisionType_from_precision precision_type
            | ExponentPrecisionType w s \<Rightarrow> APExponentPrecisionType_from_precision precision_type
            | FixedPrecisionType w i s r m b \<Rightarrow> APFixedPrecisionType_from_precision precision_type
            | _ \<Rightarrow> Inl (Exception (''Cannot convert precision type to AP: '' @
                                   class_name precision_type))))"

definition ACTypeConverter_convert :: "precision_type \<Rightarrow> error + precision_type" where
  "ACTypeConverter_convert precision_type =
     (if startswith (class_name precision_type) ''AC'' then Inr precision_type
      else (case precision_type of
              XnorPrecisionType \<Rightarrow> ACXnorPrecisionType_from_precision precision_type
            | IntegerPrecisionType w s \<Rightarrow> ACIntegerPrecisionType_from_precision precision_type
            | ExponentPrecisionType w s \<Rightarrow> ACExponentPrecisionType_from_precision precision_type
            | FixedPrecisionType w i s r m b \<Rightarrow> ACFixedPrecisionType_from_precision precision_type
            | _ \<Rightarrow> Inl (Exception (''Cannot convert precision type to AC: '' @
                                   class_name precision_type))))"

text \<open>
  A converter object: an instance of one of the two converter classes, or of their base
  class \<open>PrecisionTypeConverter\<close>, whose \<open>convert\<close> raises \<open>NotImplementedError\<close>.
\<close>

datatype precision_converter = PrecisionTypeConverter | APTypeConverter | ACTypeConverter

fun convert :: "precision_converter \<Rightarrow> precision_type \<Rightarrow> error + precision_type" where
  "convert PrecisionTypeConverter p = Inl NotImplementedError"
| "convert APTypeConverter p = APTypeConverter_convert p"
| "convert ACTypeConverter p = ACTypeConverter_convert p"

section \<open>Named types\<close>

text \<open>
  \<open>and_then\<close> sequences two steps of which the first may raise: the exception of the
  first step propagates.
\<close>

definition and_then :: "error + 'a \<Rightarrow> ('a \<Rightarrow> error + 'b) \<Rightarrow> error + 'b" where
  "and_then r f = (case r of Inl e \<Rightarrow> Inl e | Inr x \<Rightarrow> f x)"

text \<open>
  The classes the file extends come from the module \<open>hls4ml.model.hls_types\<close>, whose
  source is not part of the file. Three things the file takes from it without defining
  them are parameters of the model: \<open>precision_str\<close>, the \<open>__str__\<close> of a precision
  object, which \<open>format\<close> and \<open>str\<close> call; \<open>packed_unpack_default\<close>, the value the
  \<open>PackedType\<close> constructor gives \<open>unpack\<close> when the caller passes none; and
  \<open>variable_cppname\<close>, the \<open>cppname\<close> the variable base class derives from a name.
\<close>

record hls_types =
  precision_str :: "precision_type \<Rightarrow> string"
  packed_unpack_default :: bool
  variable_cppname :: "string \<Rightarrow> string"

text \<open>
  One constructor for each class: \<open>NamedType\<close>, \<open>CompressedType\<close>, \<open>ExponentType\<close>
  and \<open>PackedType\<close> are imported, the \<open>HLS\<close> classes are their subclasses defined in
  the file, and \<open>OtherType n\<close> is an object of a class named \<open>n\<close> that is not a
  \<open>NamedType\<close>. The arguments are \<open>name\<close> and \<open>precision\<close>, then \<open>index_precision\<close>
  for the compressed classes and \<open>n_elem\<close>, \<open>n_pack\<close>, \<open>unpack\<close> for the packed ones.

  Modelled from the spec: the constructors of the imported classes, which the \<open>HLS\<close>
  subclasses inherit and \<open>from_type\<close> calls as \<open>cls(name=..., precision=..., ...)\<close>.
  They keep their arguments as the attributes of the same names.
\<close>

datatype hls_type =
    NamedType string precision_type
  | CompressedType string precision_type precision_type
  | ExponentType string precision_type
  | PackedType string precision_type int int bool
  | HLSType string precision_type
  | HLSCompressedType string precision_type precision_type
  | HLSExponentType string precision_type
  | HLSPackedType string precision_type int int bool
  | OtherType string

text \<open>Attribute reads on a type object.\<close>

fun type_name :: "hls_type \<Rightarrow> error + string" where
  "type_name (NamedType n p) = Inr n"
| "type_name (CompressedType n p ip) = Inr n"
| "type_name (ExponentType n p) = Inr n"
| "type_name (PackedType n p ne np u) = Inr n"
| "type_name (HLSType n p) = Inr n"
| "type_name (HLSCompressedType n p ip) = Inr n"
| "type_name (HLSExponentType n p) = Inr n"
| "type_name (HLSPackedType n p ne np u) = Inr n"
| "type_name (OtherType c) = Inl (AttributeError ''name'')"

fun type_precision :: "hls_type \<Rightarrow> error + precision_type" where
  "type_precision (NamedType n p) = Inr p"
| "type_precision (CompressedType n p ip) = Inr p"
| "type_precision (ExponentType n p) = Inr p"
| "type_precision (PackedType n p ne np u) = Inr p"
| "type_precision (HLSType n p) = Inr p"
| "type_precision (HLSCompressedType n p ip) = Inr p"
| "type_precision (HLSExponentType n p) = Inr p"
| "type_precision (HLSPackedType n p ne np u) = Inr p"
| "type_precision (OtherType c) = Inl (AttributeError ''precision'')"

fun type_index_precision :: "hls_type \<Rightarrow> error + precision_type" where
  "type_index_precision (CompressedType n p ip) = Inr ip"
| "type_index_precision (HLSCompressedType n p ip) = Inr ip"
| "type_index_precision t = Inl (AttributeError ''index_precision'')"

fun type_n_elem :: "hls_type \<Rightarrow> error + int" where
  "type_n_elem (PackedType n p ne np u) = Inr ne"
| "type_n_elem (HLSPackedType n p ne np u) = Inr ne"
| "type_n_elem t = Inl (AttributeError ''n_elem'')"

fun type_n_pack :: "hls_type \<Rightarrow> error + int" where
  "type_n_pack (PackedType n p ne np u) = Inr np"
| "type_n_pack (HLSPackedType n p ne np u) = Inr np"
| "type_n_pack t = Inl (AttributeError ''n_pack'')"

text \<open>\<open>isinstance\<close>: a subclass instance is an instance of its base class.\<close>

fun isinstance_PackedType :: "hls_type \<Rightarrow> bool" where
  "isinstance_PackedType (PackedType n p ne np u) = True"
| "isinstance_PackedType (HLSPackedType n p ne np u) = True"
| "isinstance_PackedType t = False"

fun isinstance_CompressedType :: "hls_type \<Rightarrow> bool" where
  "isinstance_CompressedType (CompressedType n p ip) = True"
| "isinstance_CompressedType (HLSCompressedType n p ip) = True"
| "isinstance_CompressedType t = False"

fun isinstance_ExponentType :: "hls_type \<Rightarrow> bool" where
  "isinstance_ExponentType (ExponentType n p) = True"
| "isinstance_ExponentType (HLSExponentType n p) = True"
| "isinstance_ExponentType t = False"

fun isinstance_NamedType :: "hls_type \<Rightarrow> bool" where
  "isinstance_NamedType (OtherType c) = False"
| "isinstance_NamedType t = True"

fun type_class_name :: "hls_type \<Rightarrow> string" where
  "type_class_name (NamedType n p) = ''NamedType''"
| "type_class_name (CompressedType n p ip) = ''CompressedType''"
| "type_class_name (ExponentType n p) = ''ExponentType''"
| "type_class_name (PackedType n p ne np u) = ''PackedType''"
| "type_class_name (HLSType n p) = ''HLSType''"
| "type_class_name (HLSCompressedType n p ip) = ''HLSCompressedType''"
| "type_class_name (HLSExponentType n p) = ''HLSExponentType''"
| "type_class_name (HLSPackedType n p ne np u) = ''HLSPackedType''"
| "type_class_name (OtherType c) = c"

subsection \<open>\<open>definition_cpp\<close> of the four \<open>HLS\<close> classes\<close>

definition HLSType_definition_cpp :: "string \<Rightarrow> precision_type \<Rightarrow> error + string" where
  "HLSType_definition_cpp name precision =
     and_then (definition_cpp_precision precision) (\<lambda>prec.
       Inr (''typedef '' @ prec @ '' '' @ name @ '';'' @ newline))"

text \<open>
  \<open>format\<close> fills \<open>{index}\<close> with \<open>str(self.index_precision)\<close>: the attribute itself is
  passed, not its \<open>definition_cpp()\<close>.
\<close>

definition HLSCompressedType_definition_cpp ::
  "hls_types \<Rightarrow> string \<Rightarrow> precision_type \<Rightarrow> precision_type \<Rightarrow> error + string" where
  "HLSCompressedType_definition_cpp ext name precision index_precision =
     and_then (definition_cpp_precision precision) (\<lambda>prec.
       Inr (''typedef struct '' @ name @ '' {'' @
            precision_str ext index_precision @ '' row_index;'' @
            precision_str ext index_precision @ '' col_index;'' @
            prec @ '' weight; } '' @ name @ '';'' @ newline))"

definition HLSExponentType_definition_cpp ::
  "hls_types \<Rightarrow> string \<Rightarrow> precision_type \<Rightarrow> error + string" where
  "HLSExponentType_definition_cpp ext name precision =
     and_then (definition_cpp_precision precision) (\<lambda>prec.
       Inr (''typedef struct '' @ name @ '' {'' @
            precision_str ext XnorPrecisionType @ '' sign;'' @
            prec @ '' weight; } '' @ name @ '';'' @ newline))"

definition HLSPackedType_definition_cpp ::
  "string \<Rightarrow> precision_type \<Rightarrow> int \<Rightarrow> int \<Rightarrow> bool \<Rightarrow> error + string" where
  "HLSPackedType_definition_cpp name precision n_elem n_pack unpack =
     (let n_elem_expr = (if unpack then ''/'' else ''*'') in
      and_then (definition_cpp_precision precision) (\<lambda>prec.
        Inr (''typedef nnet::array<'' @ prec @ '', '' @
             (str_int n_elem @ n_elem_expr @ str_int n_pack) @ ''> '' @ name @ '';'' @ newline)))"

text \<open>\<open>t.definition_cpp()\<close>: only the four \<open>HLS\<close> classes define the method.\<close>

fun definition_cpp_type :: "hls_types \<Rightarrow> hls_type \<Rightarrow> error + string" where
  "definition_cpp_type ext (HLSType n p) = HLSType_definition_cpp n p"
| "definition_cpp_type ext (HLSCompressedType n p ip) = HLSCompressedType_definition_cpp ext n p ip"
| "definition_cpp_type ext (HLSExponentType n p) = HLSExponentType_definition_cpp ext n p"
| "definition_cpp_type ext (HLSPackedType n p ne np u) = HLSPackedType_definition_cpp n p ne np u"
| "definition_cpp_type ext t = Inl (AttributeError ''definition_cpp'')"

subsection \<open>\<open>from_type\<close> and the type converter\<close>

definition HLSType_from_type :: "hls_type \<Rightarrow> precision_converter \<Rightarrow> error + hls_type" where
  "HLSType_from_type t precision_converter =
     and_then (type_name t) (\<lambda>n.
     and_then (type_precision t) (\<lambda>p.
     and_then (convert precision_converter p) (\<lambda>p'.
       Inr (HLSType n p'))))"

definition HLSCompressedType_from_type :: "hls_type \<Rightarrow> precision_converter \<Rightarrow> error + hls_type" where
  "HLSCompressedType_from_type t precision_converter =
     and_then (type_name t) (\<lambda>n.
     and_then (type_precision t) (\<lambda>p.
     and_then (convert precision_converter p) (\<lambda>p'.
     and_then (type_index_precision t) (\<lambda>ip.
       Inr (HLSCompressedType n p' ip)))))"

definition HLSExponentType_from_type :: "hls_type \<Rightarrow> precision_converter \<Rightarrow> error + hls_type" where
  "HLSExponentType_from_type t precision_converter =
     and_then (type_name t) (\<lambda>n.
     and_then (type_precision t) (\<lambda>p.
     and_then (convert precision_converter p) (\<lambda>p'.
       Inr (HLSExponentType n p'))))"

text \<open>
  The constructor is called with \<open>name\<close>, \<open>precision\<close>, \<open>n_elem\<close> and \<open>n_pack\<close> only, so
  \<open>unpack\<close> of the new object is the constructor's own value.
\<close>

definition HLSPackedType_from_type ::
  "hls_types \<Rightarrow> hls_type \<Rightarrow> precision_converter \<Rightarrow> error + hls_type" where
  "HLSPackedType_from_type ext t precision_converter =
     and_then (type_name t) (\<lambda>n.
     and_then (type_precision t) (\<lambda>p.
     and_then (convert precision_converter p) (\<lambda>p'.
     and_then (type_n_elem t) (\<lambda>ne.
     and_then (type_n_pack t) (\<lambda>np.
       Inr (HLSPackedType n p' ne np (packed_unpack_default ext)))))))"

text \<open>
  An \<open>HLSTypeConverter\<close> object holds a precision converter; it is the argument
  \<open>precision_converter\<close> here.
\<close>

definition HLSTypeConverter_convert ::
  "hls_types \<Rightarrow> precision_converter \<Rightarrow> hls_type \<Rightarrow> error + hls_type" where
  "HLSTypeConverter_convert ext precision_converter t =
     (if isinstance_PackedType t then HLSPackedType_from_type ext t precision_converter
      else if isinstance_CompressedType t then HLSCompressedType_from_type t precision_converter
      else if isinstance_ExponentType t then HLSExponentType_from_type t precision_converter
      else if isinstance_NamedType t then HLSType_from_type t precision_converter
      else Inl (Exception (''Unknown type: '' @ type_class_name t)))"

section \<open>Variables\<close>

text \<open>
  A tensor variable object: its class and the attributes the file reads or writes. An
  attribute a class does not set is \<open>None\<close>. \<open>pragma\<close> is a string on the array
  classes and the pair \<open>('stream', depth)\<close> on a stream.
\<close>

datatype variable_class =
    TensorVariable
  | ArrayVariable
  | VivadoArrayVariable
  | QuartusArrayVariable
  | StructMemberVariable
  | StreamVariable

datatype pragma_value = Pragma string | StreamPragma int

record tensor_variable =
  var_class :: variable_class
  shape :: "int list"
  dim_names :: "string list"
  name :: string
  cppname :: string
  var_type :: hls_type
  pragma :: "pragma_value option"
  struct_name :: "string option"
  member_name :: "string option"

text \<open>
  Modelled from the spec: the constructor of the imported base class \<open>TensorVariable\<close>,
  called as \<open>super().__init__(shape, dim_names, name, type_name, precision)\<close>. It keeps
  the shape, the dimension names and the name, and owns a \<open>NamedType\<close> made of the type
  name and the precision; \<open>cppname\<close> is derived from the name.
\<close>

definition TensorVariable_init ::
  "hls_types \<Rightarrow> variable_class \<Rightarrow> int list \<Rightarrow> string list \<Rightarrow> string \<Rightarrow> string \<Rightarrow>
   precision_type \<Rightarrow> tensor_variable" where
  "TensorVariable_init ext cls shp dims var_name type_nm precision =
     \<lparr>var_class = cls, shape = shp, dim_names = dims, name = var_name,
      cppname = variable_cppname ext var_name, var_type = NamedType type_nm precision,
      pragma = None, struct_name = None, member_name = None\<rparr>"

subsection \<open>Array variables\<close>

text \<open>
  \<open>cls\<close> is the class being instantiated: \<open>ArrayVariable\<close> or a subclass that inherits
  the constructor. An argument the caller leaves out is passed as its default.
\<close>

definition ArrayVariable_init ::
  "hls_types \<Rightarrow> variable_class \<Rightarrow> tensor_variable \<Rightarrow> precision_converter \<Rightarrow> string \<Rightarrow>
   error + tensor_variable" where
  "ArrayVariable_init ext cls tensor_var type_converter prag =
     and_then (type_name (var_type tensor_var)) (\<lambda>tn.
     and_then (type_precision (var_type tensor_var)) (\<lambda>tp.
       (let self = TensorVariable_init ext cls (shape tensor_var) (dim_names tensor_var)
                     (name tensor_var) tn tp
        in and_then (HLSTypeConverter_convert ext type_converter (var_type self)) (\<lambda>t.
             Inr (self\<lparr>var_type := t, pragma := Some (Pragma prag)\<rparr>)))))"

definition size_cpp :: "tensor_variable \<Rightarrow> string" where
  "size_cpp self = join ''*'' (dim_names self)"

text \<open>\<open>ArrayVariable.from_variable\<close>, inherited by the two platform classes.\<close>

definition ArrayVariable_from_variable ::
  "hls_types \<Rightarrow> variable_class \<Rightarrow> tensor_variable \<Rightarrow> precision_converter \<Rightarrow> string \<Rightarrow>
   error + tensor_variable" where
  "ArrayVariable_from_variable ext cls tensor_var type_converter prag =
     ArrayVariable_init ext cls tensor_var type_converter prag"

subsection \<open>Struct members\<close>

definition StructMemberVariable_init ::
  "hls_types \<Rightarrow> tensor_variable \<Rightarrow> precision_converter \<Rightarrow> string \<Rightarrow> string option \<Rightarrow>
   error + tensor_variable" where
  "StructMemberVariable_init ext tensor_var type_converter prag struct_nm =
     and_then (ArrayVariable_init ext StructMemberVariable tensor_var type_converter prag) (\<lambda>self.
       (case struct_nm of
          None \<Rightarrow> Inl (AssertionError
                    ''struct_name must be provided when creating StructMemberVariable'')
        | Some s \<Rightarrow> Inr (self\<lparr>struct_name := Some s, member_name := Some (name self),
                               name := s @ ''.'' @ name self\<rparr>)))"

definition StructMemberVariable_definition_cpp ::
  "tensor_variable \<Rightarrow> string \<Rightarrow> bool \<Rightarrow> error + string" where
  "StructMemberVariable_definition_cpp self name_suffix as_reference =
     and_then (type_name (var_type self)) (\<lambda>tn.
       (case member_name self of
          None \<Rightarrow> Inl (AttributeError ''member_name'')
        | Some m \<Rightarrow> Inr (tn @ '' '' @ m @ name_suffix @ ''['' @ size_cpp self @ '']'')))"

definition StructMemberVariable_from_variable ::
  "hls_types \<Rightarrow> tensor_variable \<Rightarrow> precision_converter \<Rightarrow> string \<Rightarrow> string option \<Rightarrow>
   error + tensor_variable" where
  "StructMemberVariable_from_variable ext tensor_var type_converter prag struct_nm =
     (if var_class tensor_var = StructMemberVariable then Inr tensor_var
      else StructMemberVariable_init ext tensor_var type_converter prag struct_nm)"

subsection \<open>Streams\<close>

text \<open>
  \<open>np.prod(self.shape)\<close> of a list of Python integers is a NumPy 64-bit signed integer:
  the product wraps modulo \<open>2^64\<close>. \<open>//\<close> on it is NumPy's \<open>floor_divide\<close>, which for a
  zero divisor gives \<open>0\<close> and a \<open>RuntimeWarning\<close>, not an exception; a quotient is again
  a 64-bit integer. The dimensions are taken to be integers of the 64-bit range.
\<close>

definition int64 :: "int \<Rightarrow> int" where
  "int64 x = (x + 2 ^ 63) mod 2 ^ 64 - 2 ^ 63"

definition np_prod :: "int list \<Rightarrow> int" where
  "np_prod xs = int64 (prod_list xs)"

definition np_floor_divide :: "int \<Rightarrow> int \<Rightarrow> int" where
  "np_floor_divide a b = (if b = 0 then 0 else int64 (a div b))"

text \<open>\<open>xs[-1]\<close>.\<close>

definition last_item :: "'a list \<Rightarrow> error + 'a" where
  "last_item xs = (if xs = [] then Inl IndexError else Inr (last xs))"

definition StreamVariable_init ::
  "hls_types \<Rightarrow> tensor_variable \<Rightarrow> precision_converter \<Rightarrow> int \<Rightarrow> int \<Rightarrow>
   error + tensor_variable" where
  "StreamVariable_init ext tensor_var type_converter n_pack depth =
     and_then (type_name (var_type tensor_var)) (\<lambda>tn.
     and_then (type_precision (var_type tensor_var)) (\<lambda>tp.
       (let self = TensorVariable_init ext StreamVariable (shape tensor_var)
                     (dim_names tensor_var) (name tensor_var) tn tp
        in and_then (type_name (var_type self)) (\<lambda>n.
           and_then (type_precision (var_type self)) (\<lambda>p.
           and_then (last_item (shape self)) (\<lambda>n_elem.
           and_then (HLSTypeConverter_convert ext type_converter
                       (PackedType n p n_elem n_pack (packed_unpack_default ext))) (\<lambda>t.
             (let depth' = (if depth = 0 then np_floor_divide (np_prod (shape self)) n_elem
                            else depth)
              in Inr (self\<lparr>var_type := t, pragma := Some (StreamPragma depth')\<rparr>)))))))))"

definition dquote :: string where
  "dquote = [CHR 0x22]"

definition StreamVariable_definition_cpp ::
  "tensor_variable \<Rightarrow> string \<Rightarrow> bool \<Rightarrow> error + string" where
  "StreamVariable_definition_cpp self name_suffix as_reference =
     and_then (type_name (var_type self)) (\<lambda>tn.
       (if as_reference
        then Inr (''hls::stream<'' @ tn @ ''> &'' @ cppname self @ name_suffix)
        else Inr (''hls::stream<'' @ tn @ ''> '' @ cppname self @ name_suffix @
                  ''('' @ dquote @ cppname self @ dquote @ '')'')))"

definition StreamVariable_from_variable ::
  "hls_types \<Rightarrow> tensor_variable \<Rightarrow> precision_converter \<Rightarrow> int \<Rightarrow> int \<Rightarrow>
   error + tensor_variable" where
  "StreamVariable_from_variable ext tensor_var type_converter n_pack depth =
     (if var_class tensor_var = StreamVariable then Inr tensor_var
      else StreamVariable_init ext tensor_var type_converter n_pack depth)"

subsection \<open>Weights\<close>

text \<open>
  A weight variable object; \<open>'d\<close> is the payload and \<open>'q\<close> the quantizer, neither
  interpreted here.
\<close>

datatype weight_class = StaticWeightVariable | BramWeightVariable | OtherWeightVariable string

fun weight_class_name :: "weight_class \<Rightarrow> string" where
  "weight_class_name StaticWeightVariable = ''StaticWeightVariable''"
| "weight_class_name BramWeightVariable = ''BramWeightVariable''"
| "weight_class_name (OtherWeightVariable c) = c"

record ('d, 'q) weight_variable =
  w_class :: weight_class
  w_name :: string
  w_cppname :: string
  w_type :: hls_type
  w_data :: 'd
  w_data_length :: int
  w_quantizer :: "'q option"
  w_weight_class :: "string option"

text \<open>
  Modelled from the spec: the constructor of the imported base class \<open>WeightVariable\<close>,
  called with the name, the type name, the precision, the data and (by
  \<open>BramWeightVariable\<close>) the quantizer. \<open>data_length\<close> is the flattened element count of
  the data, computed by the function \<open>data_len\<close> the caller of the model provides.
\<close>

definition WeightVariable_init ::
  "hls_types \<Rightarrow> ('d \<Rightarrow> int) \<Rightarrow> weight_class \<Rightarrow> string \<Rightarrow> string \<Rightarrow> precision_type \<Rightarrow> 'd \<Rightarrow>
   'q option \<Rightarrow> ('d, 'q) weight_variable" where
  "WeightVariable_init ext data_len cls var_name type_nm precision data quantizer =
     \<lparr>w_class = cls, w_name = var_name, w_cppname = variable_cppname ext var_name,
      w_type = NamedType type_nm precision, w_data = data, w_data_length = data_len data,
      w_quantizer = quantizer, w_weight_class = None\<rparr>"

definition StaticWeightVariable_init ::
  "hls_types \<Rightarrow> ('d \<Rightarrow> int) \<Rightarrow> ('d, 'q) weight_variable \<Rightarrow> precision_converter \<Rightarrow>
   error + ('d, 'q) weight_variable" where
  "StaticWeightVariable_init ext data_len weight_var type_converter =
     and_then (type_name (w_type weight_var)) (\<lambda>tn.
     and_then (type_precision (w_type weight_var)) (\<lambda>tp.
       (let self = WeightVariable_init ext data_len StaticWeightVariable (w_name weight_var) tn tp
                     (w_data weight_var) None;
            self = self\<lparr>w_weight_class := Some (weight_class_name (w_class weight_var))\<rparr>
        in and_then (HLSTypeConverter_convert ext type_converter (w_type self)) (\<lambda>t.
             Inr (self\<lparr>w_type := t\<rparr>)))))"

definition StaticWeightVariable_definition_cpp ::
  "('d, 'q) weight_variable \<Rightarrow> string \<Rightarrow> bool \<Rightarrow> error + string" where
  "StaticWeightVariable_definition_cpp self name_suffix as_reference =
     and_then (type_name (w_type self)) (\<lambda>tn.
       Inr (tn @ '' '' @ w_cppname self @ ''['' @ str_int (w_data_length self) @ '']''))"

definition StaticWeightVariable_from_variable ::
  "hls_types \<Rightarrow> ('d \<Rightarrow> int) \<Rightarrow> ('d, 'q) weight_variable \<Rightarrow> precision_converter \<Rightarrow>
   error + ('d, 'q) weight_variable" where
  "StaticWeightVariable_from_variable ext data_len weight_var type_converter =
     (if w_class weight_var = StaticWeightVariable then Inr weight_var
      else StaticWeightVariable_init ext data_len weight_var type_converter)"

definition BramWeightVariable_from_variable ::
  "hls_types \<Rightarrow> ('d \<Rightarrow> int) \<Rightarrow> ('d, 'q) weight_variable \<Rightarrow> error + ('d, 'q) weight_variable" where
  "BramWeightVariable_from_variable ext data_len weight_var =
     (if w_class weight_var = BramWeightVariable then Inr weight_var
      else and_then (type_name (w_type weight_var)) (\<lambda>tn.
           and_then (type_precision (w_type weight_var)) (\<lambda>tp.
             Inr (WeightVariable_init ext data_len BramWeightVariable (w_name weight_var) tn tp
                    (w_data weight_var) (w_quantizer weight_var)))))"

section \<open>Predicates and concrete inputs used in the statements\<close>

text \<open>An instance of exactly one of the four imported precision classes.\<close>

fun is_abstract_kind :: "precision_type \<Rightarrow> bool" where
  "is_abstract_kind XnorPrecisionType = True"
| "is_abstract_kind (IntegerPrecisionType w s) = True"
| "is_abstract_kind (ExponentPrecisionType w s) = True"
| "is_abstract_kind (FixedPrecisionType w i s r m b) = True"
| "is_abstract_kind p = False"



text \<open>
  A concrete choice of the parameters, for evaluating the model: \<open>str\<close> of a precision
  object gives its class name, \<open>unpack\<close> defaults to \<open>False\<close>, and \<open>cppname\<close> is the
  name itself.
\<close>

definition sample_hls_types :: hls_types where
  "sample_hls_types =
     \<lparr>precision_str = class_name, packed_unpack_default = False,
      variable_cppname = (\<lambda>n. n)\<rparr>"

text \<open>
  A tensor variable as the upstream stage hands it over: shape \<open>[10, 8]\<close>, name \<open>x\<close>,
  type \<open>x_t\<close> of precision \<open>Fixed(width=16, integer=6, signed=true)\<close>; and the same
  with a last dimension of zero.
\<close>

definition sample_tensor :: tensor_variable where
  "sample_tensor =
     TensorVariable_init sample_hls_types TensorVariable [10, 8] [''N_ROWS'', ''N_COLS'']
       ''x'' ''x_t'' (FixedPrecisionType 16 6 True None None None)"

definition degenerate_tensor :: tensor_variable where
  "degenerate_tensor =
     TensorVariable_init sample_hls_types TensorVariable [10, 0] [''N_ROWS'', ''N_COLS'']
       ''x'' ''x_t'' (FixedPrecisionType 16 6 True None None None)"

text \<open>
  The array, struct-member and stream variables that the constructors build from
  \<open>sample_tensor\<close> with the bounded-width converter (see the evaluations below).
\<close>

definition sample_array :: tensor_variable where
  "sample_array =
     \<lparr>var_class = ArrayVariable, shape = [10, 8], dim_names = [''N_ROWS'', ''N_COLS''],
      name = ''x'', cppname = ''x'',
      var_type = HLSType ''x_t'' (APFixedPrecisionType 16 6 True None None None),
      pragma = Some (Pragma ''hls_register''), struct_name = None, member_name = None\<rparr>"

definition sample_struct_member :: tensor_variable where
  "sample_struct_member =
     \<lparr>var_class = StructMemberVariable, shape = [10, 8],
      dim_names = [''N_ROWS'', ''N_COLS''], name = ''inputs.x'', cppname = ''x'',
      var_type = HLSType ''x_t'' (APFixedPrecisionType 16 6 True None None None),
      pragma = Some (Pragma ''hls_register''), struct_name = Some ''inputs'',
      member_name = Some ''x''\<rparr>"

definition sample_stream :: tensor_variable where
  "sample_stream =
     \<lparr>var_class = StreamVariable, shape = [10, 8], dim_names = [''N_ROWS'', ''N_COLS''],
      name = ''x'', cppname = ''x'',
      var_type = HLSPackedType ''x_t'' (APFixedPrecisionType 16 6 True None None None) 8 1 False,
      pragma = Some (StreamPragma 10), struct_name = None, member_name = None\<rparr>"

section \<open>Evaluation rules\<close>

lemmas from_precision_defs =
  APIntegerPrecisionType_from_precision_def APFixedPrecisionType_from_precision_def
  APXnorPrecisionType_from_precision_def APExponentPrecisionType_from_precision_def
  ACIntegerPrecisionType_from_precision_def ACFixedPrecisionType_from_precision_def
  ACXnorPrecisionType_from_precision_def ACExponentPrecisionType_from_precision_def

lemmas eval_defs =
  APTypeConverter_convert_def ACTypeConverter_convert_def startswith_def
  from_precision_defs APFixedPrecisionType_definition_cpp_def
  ACFixedPrecisionType_definition_cpp_def APIntegerPrecisionType_definition_cpp_def
  ACIntegerPrecisionType_definition_cpp_def AP_rounding_mode_cpp_def
  AP_saturation_mode_cpp_def AC_rounding_mode_cpp_def AC_saturation_mode_cpp_def
  str_int_def str_nat.simps digit_chars_def str_bool_lower_def and_then_def
  HLSTypeConverter_convert_def HLSType_from_type_def HLSCompressedType_from_type_def
  HLSExponentType_from_type_def HLSPackedType_from_type_def HLSType_definition_cpp_def
  HLSCompressedType_definition_cpp_def HLSExponentType_definition_cpp_def
  HLSPackedType_definition_cpp_def xnor_width_def xnor_signed_def sample_hls_types_def

lemmas var_defs =
  TensorVariable_init_def ArrayVariable_init_def ArrayVariable_from_variable_def
  StructMemberVariable_init_def StructMemberVariable_definition_cpp_def
  StructMemberVariable_from_variable_def StreamVariable_init_def
  StreamVariable_definition_cpp_def StreamVariable_from_variable_def size_cpp_def
  last_item_def np_prod_def np_floor_divide_def int64_def dquote_def
  sample_tensor_def degenerate_tensor_def sample_array_def sample_struct_member_def
  sample_stream_def

section \<open>Properties of the precision converters\<close>

lemma AP_convert_abstract:
  "is_abstract_kind p \<Longrightarrow>
   \<exists>q s. APTypeConverter_convert p = Inr q \<and> APTypeConverter_convert q = Inr q \<and>
         definition_cpp_precision q = Inr s"
  by (cases p) (simp_all add: APTypeConverter_convert_def startswith_def from_precision_defs)

lemma AC_convert_abstract:
  "is_abstract_kind p \<Longrightarrow>
   \<exists>q s. ACTypeConverter_convert p = Inr q \<and> ACTypeConverter_convert q = Inr q \<and>
         definition_cpp_precision q = Inr s"
  by (cases p) (simp_all add: ACTypeConverter_convert_def startswith_def from_precision_defs)

lemma AP_convert_tagged:
  "startswith (class_name p) ''AP'' \<Longrightarrow> APTypeConverter_convert p = Inr p"
  by (simp add: APTypeConverter_convert_def)

lemma AC_convert_tagged:
  "startswith (class_name p) ''AC'' \<Longrightarrow> ACTypeConverter_convert p = Inr p"
  by (simp add: ACTypeConverter_convert_def)

lemma AP_convert_result:
  "APTypeConverter_convert p = Inr q \<Longrightarrow> APTypeConverter_convert q = Inr q"
  by (cases p)
    (auto simp add: APTypeConverter_convert_def startswith_def from_precision_defs
      split: if_splits)

lemma AC_convert_result:
  "ACTypeConverter_convert p = Inr q \<Longrightarrow> ACTypeConverter_convert q = Inr q"
  by (cases p)
    (auto simp add: ACTypeConverter_convert_def startswith_def from_precision_defs
      split: if_splits)

text \<open>
  Claim C5. For a precision \<open>p\<close> of one of the four imported kinds and each of the two
  dialects, converting \<open>p\<close> succeeds, converting the result again succeeds, and both
  results render the same text. More generally, whatever a converter returns it maps to
  itself; and a precision whose class name already carries the dialect's prefix is
  returned unchanged.
\<close>

theorem precision_convert_idempotent:
  "(is_abstract_kind p \<longrightarrow>
      (\<exists>q q2 s. APTypeConverter_convert p = Inr q \<and> APTypeConverter_convert q = Inr q2 \<and>
         definition_cpp_precision q = Inr s \<and> definition_cpp_precision q2 = Inr s)) \<and>
   (is_abstract_kind p \<longrightarrow>
      (\<exists>q q2 s. ACTypeConverter_convert p = Inr q \<and> ACTypeConverter_convert q = Inr q2 \<and>
         definition_cpp_precision q = Inr s \<and> definition_cpp_precision q2 = Inr s)) \<and>
   (\<forall>q. APTypeConverter_convert p = Inr q \<longrightarrow> APTypeConverter_convert q = Inr q) \<and>
   (\<forall>q. ACTypeConverter_convert p = Inr q \<longrightarrow> ACTypeConverter_convert q = Inr q) \<and>
   (startswith (class_name p) ''AP'' \<longrightarrow> APTypeConverter_convert p = Inr p) \<and>
   (startswith (class_name p) ''AC'' \<longrightarrow> ACTypeConverter_convert p = Inr p)"
  using AP_convert_abstract[of p] AC_convert_abstract[of p] AP_convert_result[of p]
    AC_convert_result[of p] AP_convert_tagged[of p] AC_convert_tagged[of p]
  by blast

theorem precision_convert_idempotent_witness:
  "is_abstract_kind (FixedPrecisionType 16 6 True (Some ''RND'') None None) \<and>
   APTypeConverter_convert (FixedPrecisionType 16 6 True (Some ''RND'') None None)
     = Inr (APFixedPrecisionType 16 6 True (Some ''RND'') None None) \<and>
   APTypeConverter_convert (APFixedPrecisionType 16 6 True (Some ''RND'') None None)
     = Inr (APFixedPrecisionType 16 6 True (Some ''RND'') None None) \<and>
   definition_cpp_precision (APFixedPrecisionType 16 6 True (Some ''RND'') None None)
     = Inr ''ap_fixed<16,6,AP_RND>'' \<and>
   ACTypeConverter_convert (FixedPrecisionType 16 6 True (Some ''RND'') None None)
     = Inr (ACFixedPrecisionType 16 6 True (Some ''RND'') None None) \<and>
   ACTypeConverter_convert (ACFixedPrecisionType 16 6 True (Some ''RND'') None None)
     = Inr (ACFixedPrecisionType 16 6 True (Some ''RND'') None None) \<and>
   definition_cpp_precision (ACFixedPrecisionType 16 6 True (Some ''RND'') None None)
     = Inr ''ac_fixed<16,6,true,AC_RND>''"
  using precision_convert_idempotent[of "FixedPrecisionType 16 6 True (Some ''RND'') None None"]
  by (simp add: APTypeConverter_convert_def ACTypeConverter_convert_def startswith_def
      from_precision_defs APFixedPrecisionType_definition_cpp_def
      ACFixedPrecisionType_definition_cpp_def AP_rounding_mode_cpp_def AP_saturation_mode_cpp_def
      AC_rounding_mode_cpp_def AC_saturation_mode_cpp_def str_int_def str_nat.simps
      digit_chars_def str_bool_lower_def)




section \<open>Properties of the named types\<close>

text \<open>
  Claim C1, as amended. The declaration of an \<open>HLSPackedType\<close> whose precision renders
  as \<open>s\<close> is \<open>typedef nnet::array<s, E> name;\<close> followed by a newline, where \<open>E\<close> is
  the text of \<open>n_elem\<close>, then \<open>/\<close> when \<open>unpack\<close> is set and \<open>*\<close> otherwise, then the
  text of \<open>n_pack\<close>: the expression is emitted, not its value.
\<close>

theorem packed_definition_cpp_text:
  "definition_cpp_precision p = Inr s \<Longrightarrow>
   definition_cpp_type ext (HLSPackedType nm p ne np u) =
     Inr (''typedef nnet::array<'' @ s @ '', '' @ str_int ne @ (if u then ''/'' else ''*'') @
          str_int np @ ''> '' @ nm @ '';'' @ newline)"
  by (simp add: HLSPackedType_definition_cpp_def and_then_def)

theorem packed_definition_cpp_text_witness:
  "definition_cpp_precision (ACFixedPrecisionType 16 6 True None None None)
     = Inr ''ac_fixed<16,6,true>'' \<and>
   definition_cpp_type sample_hls_types
     (HLSPackedType ''t'' (ACFixedPrecisionType 16 6 True None None None) 32 4 True)
     = Inr (''typedef nnet::array<ac_fixed<16,6,true>, 32/4> t;'' @ newline) \<and>
   definition_cpp_type sample_hls_types
     (HLSPackedType ''t'' (ACFixedPrecisionType 16 6 True None None None) 32 4 False)
     = Inr (''typedef nnet::array<ac_fixed<16,6,true>, 32*4> t;'' @ newline)"
  using packed_definition_cpp_text[of "ACFixedPrecisionType 16 6 True None None None"
      "''ac_fixed<16,6,true>''" sample_hls_types "''t''" 32 4 True]
    packed_definition_cpp_text[of "ACFixedPrecisionType 16 6 True None None None"
      "''ac_fixed<16,6,true>''" sample_hls_types "''t''" 32 4 False]
  by (simp add: eval_defs)

text \<open>
  Claim C1 as stated fails: with \<open>n_elem = 32\<close>, \<open>n_pack = 4\<close> the rendered count is the
  text \<open>32/4\<close> (\<open>unpack\<close> set) and \<open>32*4\<close> (\<open>unpack\<close> not set), not \<open>8\<close> and \<open>128\<close>,
  and the array is \<open>nnet::array\<close>.
\<close>

theorem packed_count_counterexample:
  "HLSPackedType_definition_cpp ''t'' (APFixedPrecisionType 16 6 True None None None) 32 4 True
     = Inr (''typedef nnet::array<ap_fixed<16,6>, 32/4> t;'' @ newline) \<and>
   HLSPackedType_definition_cpp ''t'' (APFixedPrecisionType 16 6 True None None None) 32 4 True
     \<noteq> Inr (''typedef array<ap_fixed<16,6>, 8> t;'' @ newline) \<and>
   HLSPackedType_definition_cpp ''t'' (APFixedPrecisionType 16 6 True None None None) 32 4 True
     \<noteq> Inr (''typedef nnet::array<ap_fixed<16,6>, 8> t;'' @ newline) \<and>
   HLSPackedType_definition_cpp ''t'' (APFixedPrecisionType 16 6 True None None None) 32 4 False
     = Inr (''typedef nnet::array<ap_fixed<16,6>, 32*4> t;'' @ newline) \<and>
   HLSPackedType_definition_cpp ''t'' (APFixedPrecisionType 16 6 True None None None) 32 4 False
     \<noteq> Inr (''typedef array<ap_fixed<16,6>, 128> t;'' @ newline) \<and>
   HLSPackedType_definition_cpp ''t'' (APFixedPrecisionType 16 6 True None None None) 32 4 False
     \<noteq> Inr (''typedef nnet::array<ap_fixed<16,6>, 128> t;'' @ newline)"
  by (simp add: eval_defs)

text \<open>
  Claim C2, as amended. Converting a compressed type whose precision the converter maps
  to \<open>p'\<close>, rendered as \<open>s\<close>, gives an \<open>HLSCompressedType\<close> with that precision and the
  index precision as it was; its declaration is a struct with the fields \<open>row_index\<close>,
  \<open>col_index\<close>, \<open>weight\<close> in this order, \<open>weight\<close> typed by \<open>s\<close> and the two index
  fields typed by \<open>str\<close> of the unconverted index precision.
\<close>

theorem compressed_definition_cpp_text:
  "t = CompressedType nm p ip \<or> t = HLSCompressedType nm p ip \<Longrightarrow>
   convert c p = Inr p' \<Longrightarrow> definition_cpp_precision p' = Inr s \<Longrightarrow>
   HLSTypeConverter_convert ext c t = Inr (HLSCompressedType nm p' ip) \<and>
   definition_cpp_type ext (HLSCompressedType nm p' ip) =
     Inr (''typedef struct '' @ nm @ '' {'' @
          precision_str ext ip @ '' row_index;'' @
          precision_str ext ip @ '' col_index;'' @
          s @ '' weight; } '' @ nm @ '';'' @ newline)"
  by (auto simp add: HLSTypeConverter_convert_def HLSCompressedType_from_type_def
      HLSCompressedType_definition_cpp_def and_then_def)

theorem compressed_definition_cpp_text_witness:
  "convert ACTypeConverter (FixedPrecisionType 16 6 True None None None)
     = Inr (ACFixedPrecisionType 16 6 True None None None) \<and>
   definition_cpp_precision (ACFixedPrecisionType 16 6 True None None None)
     = Inr ''ac_fixed<16,6,true>'' \<and>
   HLSTypeConverter_convert sample_hls_types ACTypeConverter
     (CompressedType ''w'' (FixedPrecisionType 16 6 True None None None)
        (IntegerPrecisionType 10 False))
     = Inr (HLSCompressedType ''w'' (ACFixedPrecisionType 16 6 True None None None)
              (IntegerPrecisionType 10 False)) \<and>
   definition_cpp_type sample_hls_types
     (HLSCompressedType ''w'' (ACFixedPrecisionType 16 6 True None None None)
        (IntegerPrecisionType 10 False))
     = Inr (''typedef struct w {IntegerPrecisionType row_index;'' @
            ''IntegerPrecisionType col_index;ac_fixed<16,6,true> weight; } w;'' @ newline)"
  using compressed_definition_cpp_text[of
      "CompressedType ''w'' (FixedPrecisionType 16 6 True None None None)
         (IntegerPrecisionType 10 False)"
      "''w''" "FixedPrecisionType 16 6 True None None None" "IntegerPrecisionType 10 False"
      ACTypeConverter "ACFixedPrecisionType 16 6 True None None None"
      "''ac_fixed<16,6,true>''" sample_hls_types]
  by (simp add: eval_defs)

text \<open>
  Claim C2 as stated fails: the index fields are not typed by the dialect's rendering of
  the index precision. For the compressed type with index precision
  \<open>Integer(width=10, signed=false)\<close> and weight precision
  \<open>Fixed(width=16, integer=6, signed=true)\<close> both dialects emit the same index text,
  whatever \<open>str\<close> of a precision is, so the two declarations cannot be the
  bounded-width one (\<open>ap_uint<10>\<close>) and the algorithmic one (\<open>ac_int<10, false>\<close>).
\<close>

theorem compressed_index_counterexample:
  "\<forall>ext. \<not> (and_then (HLSTypeConverter_convert ext APTypeConverter
                 (CompressedType ''w'' (FixedPrecisionType 16 6 True None None None)
                    (IntegerPrecisionType 10 False)))
               (definition_cpp_type ext)
             = Inr (''typedef struct w {ap_uint<10> row_index;ap_uint<10> col_index;'' @
                    ''ap_fixed<16,6> weight; } w;'' @ newline) \<and>
            and_then (HLSTypeConverter_convert ext ACTypeConverter
                 (CompressedType ''w'' (FixedPrecisionType 16 6 True None None None)
                    (IntegerPrecisionType 10 False)))
               (definition_cpp_type ext)
             = Inr (''typedef struct w {ac_int<10, false> row_index;ac_int<10, false> col_index;'' @
                    ''ac_fixed<16,6,true> weight; } w;'' @ newline))"
proof (intro allI notI)
  fix ext :: hls_types
  let ?x = "precision_str ext (IntegerPrecisionType 10 False)"
  assume a: "and_then (HLSTypeConverter_convert ext APTypeConverter
                 (CompressedType ''w'' (FixedPrecisionType 16 6 True None None None)
                    (IntegerPrecisionType 10 False)))
               (definition_cpp_type ext)
             = Inr (''typedef struct w {ap_uint<10> row_index;ap_uint<10> col_index;'' @
                    ''ap_fixed<16,6> weight; } w;'' @ newline) \<and>
            and_then (HLSTypeConverter_convert ext ACTypeConverter
                 (CompressedType ''w'' (FixedPrecisionType 16 6 True None None None)
                    (IntegerPrecisionType 10 False)))
               (definition_cpp_type ext)
             = Inr (''typedef struct w {ac_int<10, false> row_index;ac_int<10, false> col_index;'' @
                    ''ac_fixed<16,6,true> weight; } w;'' @ newline)"
  from a [THEN conjunct1]
  have e1: "?x @ '' row_index;'' @ ?x = ''ap_uint<10> row_index;ap_uint<10>''"
    by (simp add: eval_defs)
  from a [THEN conjunct2]
  have e2: "?x @ '' row_index;'' @ ?x = ''ac_int<10, false> row_index;ac_int<10, false>''"
    by (simp add: eval_defs)
  from e1 [symmetric] e2
  have "''ap_uint<10> row_index;ap_uint<10>'' = ''ac_int<10, false> row_index;ac_int<10, false>''"
    by (rule trans)
  then show False by simp
qed

text \<open>
  Claim C3, as amended. Converting an exponent type whose precision the converter maps
  to \<open>p'\<close>, rendered as \<open>s\<close>, gives an \<open>HLSExponentType\<close>; its declaration is a struct
  with the fields \<open>sign\<close>, \<open>weight\<close> in this order, \<open>weight\<close> typed by \<open>s\<close> and
  \<open>sign\<close> typed by \<open>str\<close> of a fresh \<open>XnorPrecisionType\<close> of the imported class, which
  depends neither on the dialect nor on the wrapped precision.
\<close>

theorem exponent_definition_cpp_text:
  "t = ExponentType nm p \<or> t = HLSExponentType nm p \<Longrightarrow>
   convert c p = Inr p' \<Longrightarrow> definition_cpp_precision p' = Inr s \<Longrightarrow>
   HLSTypeConverter_convert ext c t = Inr (HLSExponentType nm p') \<and>
   definition_cpp_type ext (HLSExponentType nm p') =
     Inr (''typedef struct '' @ nm @ '' {'' @
          precision_str ext XnorPrecisionType @ '' sign;'' @
          s @ '' weight; } '' @ nm @ '';'' @ newline)"
  by (auto simp add: HLSTypeConverter_convert_def HLSExponentType_from_type_def
      HLSExponentType_definition_cpp_def and_then_def)

theorem exponent_definition_cpp_text_witness:
  "convert ACTypeConverter (ExponentPrecisionType 8 True) = Inr (ACExponentPrecisionType 8 True) \<and>
   definition_cpp_precision (ACExponentPrecisionType 8 True) = Inr ''ac_int<8, true>'' \<and>
   HLSTypeConverter_convert sample_hls_types ACTypeConverter
     (ExponentType ''e'' (ExponentPrecisionType 8 True))
     = Inr (HLSExponentType ''e'' (ACExponentPrecisionType 8 True)) \<and>
   definition_cpp_type sample_hls_types (HLSExponentType ''e'' (ACExponentPrecisionType 8 True))
     = Inr (''typedef struct e {XnorPrecisionType sign;ac_int<8, true> weight; } e;'' @ newline)"
  using exponent_definition_cpp_text[of "ExponentType ''e'' (ExponentPrecisionType 8 True)"
      "''e''" "ExponentPrecisionType 8 True" ACTypeConverter "ACExponentPrecisionType 8 True"
      "''ac_int<8, true>''" sample_hls_types]
  by (simp add: eval_defs)

text \<open>
  Claim C3 as stated fails: the \<open>sign\<close> field is not typed by the dialect's renderer.
  For an exponent type of precision \<open>Exponent(width=8, signed=true)\<close> both dialects emit
  the same sign text, whatever \<open>str\<close> of a precision is, so the two declarations cannot
  be the ones with \<open>ap_uint<1>\<close> and with \<open>ac_int<1, false>\<close>.
\<close>

theorem exponent_sign_counterexample:
  "\<forall>ext. \<not> (and_then (HLSTypeConverter_convert ext APTypeConverter
                 (ExponentType ''e'' (ExponentPrecisionType 8 True)))
               (definition_cpp_type ext)
             = Inr (''typedef struct e {ap_uint<1> sign;ap_int<8> weight; } e;'' @ newline) \<and>
            and_then (HLSTypeConverter_convert ext ACTypeConverter
                 (ExponentType ''e'' (ExponentPrecisionType 8 True)))
               (definition_cpp_type ext)
             = Inr (''typedef struct e {ac_int<1, false> sign;ac_int<8, true> weight; } e;'' @
                    newline))"
proof (intro allI notI)
  fix ext :: hls_types
  let ?x = "precision_str ext XnorPrecisionType"
  assume a: "and_then (HLSTypeConverter_convert ext APTypeConverter
                 (ExponentType ''e'' (ExponentPrecisionType 8 True)))
               (definition_cpp_type ext)
             = Inr (''typedef struct e {ap_uint<1> sign;ap_int<8> weight; } e;'' @ newline) \<and>
            and_then (HLSTypeConverter_convert ext ACTypeConverter
                 (ExponentType ''e'' (ExponentPrecisionType 8 True)))
               (definition_cpp_type ext)
             = Inr (''typedef struct e {ac_int<1, false> sign;ac_int<8, true> weight; } e;'' @
                    newline)"
  from a [THEN conjunct1] have e1: "?x = ''ap_uint<1>''"
    by (simp add: eval_defs)
  from a [THEN conjunct2] have e2: "?x = ''ac_int<1, false>''"
    by (simp add: eval_defs)
  from e1 [symmetric] e2 have "''ap_uint<1>'' = ''ac_int<1, false>''"
    by (rule trans)
  then show False by simp
qed

text \<open>
  Claim C10. \<open>HLSPackedType.from_type\<close> does not pass the source's \<open>unpack\<close> on: two
  packed types that differ in \<open>unpack\<close> only convert to the same result; when the
  conversion succeeds, the result has the source's name, element count and pack factor,
  the converted precision, and the \<open>unpack\<close> value the constructor supplies. The type
  converter converts a packed type by this function.
\<close>

theorem packed_from_type_drops_unpack:
  "HLSPackedType_from_type ext (PackedType nm p ne np u) c =
     HLSPackedType_from_type ext (PackedType nm p ne np u') c \<and>
   (\<forall>t. HLSPackedType_from_type ext (PackedType nm p ne np u) c = Inr t \<longrightarrow>
      (\<exists>p'. convert c p = Inr p' \<and>
            t = HLSPackedType nm p' ne np (packed_unpack_default ext))) \<and>
   HLSTypeConverter_convert ext c (PackedType nm p ne np u) =
     HLSPackedType_from_type ext (PackedType nm p ne np u) c"
  by (auto simp add: HLSPackedType_from_type_def HLSTypeConverter_convert_def and_then_def
      split: sum.splits)

theorem packed_from_type_drops_unpack_witness:
  "HLSPackedType_from_type sample_hls_types
     (PackedType ''t'' (FixedPrecisionType 16 6 True None None None) 32 4 True) APTypeConverter
     = Inr (HLSPackedType ''t'' (APFixedPrecisionType 16 6 True None None None) 32 4 False) \<and>
   packed_unpack_default sample_hls_types = False \<and>
   convert APTypeConverter (FixedPrecisionType 16 6 True None None None)
     = Inr (APFixedPrecisionType 16 6 True None None None)"
  using packed_from_type_drops_unpack[of sample_hls_types "''t''"
      "FixedPrecisionType 16 6 True None None None" 32 4 True APTypeConverter False]
  by (simp add: eval_defs)

section \<open>Properties of the variables\<close>

lemma ArrayVariable_init_result:
  "ArrayVariable_init ext cls tv c prag = Inr a \<Longrightarrow>
   \<exists>tn p. type_name (var_type tv) = Inr tn \<and> var_type a = HLSType tn p \<and>
     name a = name tv \<and> dim_names a = dim_names tv \<and> shape a = shape tv \<and>
     var_class a = cls \<and> pragma a = Some (Pragma prag)"
  by (auto simp add: ArrayVariable_init_def TensorVariable_init_def and_then_def
      HLSTypeConverter_convert_def HLSType_from_type_def split: sum.splits)

text \<open>
  The four \<open>from_variable\<close> constructors that compare \<open>type(x)\<close> with their class
  return an instance of that class as it is.
\<close>

lemma StructMemberVariable_from_variable_same:
  "var_class v = StructMemberVariable \<Longrightarrow>
   StructMemberVariable_from_variable ext v c prag sn = Inr v"
  by (simp add: StructMemberVariable_from_variable_def)

lemma StreamVariable_from_variable_same:
  "var_class v = StreamVariable \<Longrightarrow> StreamVariable_from_variable ext v c n_pack depth = Inr v"
  by (simp add: StreamVariable_from_variable_def)

lemma StaticWeightVariable_from_variable_same:
  "w_class v = StaticWeightVariable \<Longrightarrow>
   StaticWeightVariable_from_variable ext data_len v c = Inr v"
  by (simp add: StaticWeightVariable_from_variable_def)

lemma BramWeightVariable_from_variable_same:
  "w_class v = BramWeightVariable \<Longrightarrow> BramWeightVariable_from_variable ext data_len v = Inr v"
  by (simp add: BramWeightVariable_from_variable_def)

text \<open>
  Claim C4 at the array class. \<open>ArrayVariable.from_variable\<close> has no such comparison:
  given \<open>sample_array\<close>, which is the \<open>ArrayVariable\<close> built from \<open>sample_tensor\<close> with
  the pragma \<open>hls_register\<close>, it constructs a new variable. With the default pragma the
  result differs from its input in the pragma; with the converter of the other dialect
  the call raises instead of returning its input.
\<close>

theorem array_from_variable_rewraps:
  "ArrayVariable_init sample_hls_types ArrayVariable sample_tensor APTypeConverter ''hls_register''
     = Inr sample_array \<and>
   var_class sample_array = ArrayVariable \<and>
   ArrayVariable_from_variable sample_hls_types ArrayVariable sample_array APTypeConverter
     ''partition''
     = Inr (sample_array\<lparr>pragma := Some (Pragma ''partition'')\<rparr>) \<and>
   ArrayVariable_from_variable sample_hls_types ArrayVariable sample_array APTypeConverter
     ''partition''
     \<noteq> Inr sample_array \<and>
   ArrayVariable_from_variable sample_hls_types ArrayVariable sample_array ACTypeConverter
     ''partition''
     = Inl (Exception ''Cannot convert precision type to AC: APFixedPrecisionType'')"
  by (simp add: eval_defs var_defs)

lemma int64_id: "- (2 ^ 63) \<le> x \<Longrightarrow> x < 2 ^ 63 \<Longrightarrow> int64 x = x"
  by (simp add: int64_def)

lemma prod_list_nonneg: "\<forall>d \<in> set xs. (0::int) \<le> d \<Longrightarrow> 0 \<le> prod_list xs"
  by (induction xs) simp_all

lemma default_depth_value:
  assumes "xs \<noteq> []" and "\<forall>d \<in> set xs. (0::int) \<le> d" and "prod_list xs < 2 ^ 63"
  shows "np_floor_divide (np_prod xs) (last xs) =
           (if last xs = 0 then 0 else prod_list xs div last xs)"
proof -
  have p0: "0 \<le> prod_list xs" using assms(2) by (rule prod_list_nonneg)
  then have np: "np_prod xs = prod_list xs"
    using assms(3) by (simp add: np_prod_def int64_id)
  have l0: "0 \<le> last xs" using assms(1,2) by simp
  show ?thesis
  proof (cases "last xs = 0")
    case True
    then show ?thesis by (simp add: np_floor_divide_def)
  next
    case False
    with l0 have lpos: "0 < last xs" by simp
    have q0: "0 \<le> prod_list xs div last xs"
      using p0 lpos by (simp add: pos_imp_zdiv_nonneg_iff)
    have "prod_list xs div last xs \<le> prod_list xs"
    proof (cases "prod_list xs = 0")
      case True
      then show ?thesis by simp
    next
      case False
      with p0 have "0 < prod_list xs" by simp
      then show ?thesis by (rule int_div_le_self)
    qed
    then have "prod_list xs div last xs < 2 ^ 63" using assms(3) by simp
    with q0 have "int64 (prod_list xs div last xs) = prod_list xs div last xs"
      by (simp add: int64_id)
    with False np show ?thesis by (simp add: np_floor_divide_def)
  qed
qed

text \<open>
  Claim C7, as amended. Let the shape be non-empty, of non-negative dimensions whose
  product is below \<open>2^63\<close>, and let the type of the tensor variable have a name and a
  precision the converter accepts. Called with depth \<open>0\<close> (the default of the
  argument), the constructor succeeds, and the depth it stores is the product of the
  shape divided (rounding down) by the last dimension when that is not zero, and \<open>0\<close>
  when the last dimension is zero: no error is raised for a zero last dimension.
\<close>

theorem stream_default_depth:
  assumes "shape tv \<noteq> []" and "\<forall>d \<in> set (shape tv). 0 \<le> d"
    and "prod_list (shape tv) < 2 ^ 63"
    and "type_name (var_type tv) = Inr tn" and "type_precision (var_type tv) = Inr tp"
    and "convert c tp = Inr tp'"
  shows "\<exists>v. StreamVariable_init ext tv c n_pack 0 = Inr v \<and>
             pragma v = Some (StreamPragma
               (if last (shape tv) = 0 then 0
                else prod_list (shape tv) div last (shape tv)))"
  using assms default_depth_value[of "shape tv"]
  by (simp add: StreamVariable_init_def TensorVariable_init_def and_then_def last_item_def
      HLSTypeConverter_convert_def HLSPackedType_from_type_def)

theorem stream_default_depth_witness:
  "shape sample_tensor = [10, 8] \<and>
   type_name (var_type sample_tensor) = Inr ''x_t'' \<and>
   type_precision (var_type sample_tensor) = Inr (FixedPrecisionType 16 6 True None None None) \<and>
   convert ACTypeConverter (FixedPrecisionType 16 6 True None None None)
     = Inr (ACFixedPrecisionType 16 6 True None None None) \<and>
   (\<exists>v. StreamVariable_init sample_hls_types sample_tensor ACTypeConverter 1 0 = Inr v \<and>
        pragma v = Some (StreamPragma 10))"
  using stream_default_depth[of sample_tensor "''x_t''"
      "FixedPrecisionType 16 6 True None None None" ACTypeConverter
      "ACFixedPrecisionType 16 6 True None None None" sample_hls_types 1]
  by (simp add: eval_defs var_defs)

text \<open>
  Claim C7 as stated fails: over the shape \<open>[10, 0]\<close>, with no depth given, the
  constructor returns a stream variable of depth \<open>0\<close>; it raises nothing.
\<close>

theorem stream_zero_last_dimension_counterexample:
  "shape degenerate_tensor = [10, 0] \<and>
   StreamVariable_init sample_hls_types degenerate_tensor APTypeConverter 1 0
     = Inr \<lparr>var_class = StreamVariable, shape = [10, 0],
            dim_names = [''N_ROWS'', ''N_COLS''], name = ''x'', cppname = ''x'',
            var_type = HLSPackedType ''x_t'' (APFixedPrecisionType 16 6 True None None None)
                         0 1 False,
            pragma = Some (StreamPragma 0), struct_name = None, member_name = None\<rparr>"
  by (simp add: eval_defs var_defs)

text \<open>
  Claim C8, as amended. Without a struct name (\<open>None\<close>) the construction of a
  struct-member variable never succeeds, and it fails with the \<open>AssertionError\<close> of the
  \<open>assert\<close> whenever the construction of the underlying array variable succeeds. With
  a struct name \<open>s\<close>, empty or not, a successful construction gives the external name
  \<open>s.member\<close>, and the declaration uses the bare member name.
\<close>

theorem struct_member_construction:
  "(\<forall>a. ArrayVariable_init ext StructMemberVariable tv c prag = Inr a \<longrightarrow>
        StructMemberVariable_init ext tv c prag None =
          Inl (AssertionError
                ''struct_name must be provided when creating StructMemberVariable'')) \<and>
   (\<forall>v. StructMemberVariable_init ext tv c prag None \<noteq> Inr v) \<and>
   (\<forall>v s. StructMemberVariable_init ext tv c prag (Some s) = Inr v \<longrightarrow>
        name v = s @ ''.'' @ name tv \<and> struct_name v = Some s \<and>
        member_name v = Some (name tv) \<and>
        (\<exists>tn. type_name (var_type tv) = Inr tn \<and>
           StructMemberVariable_definition_cpp v suffix r =
             Inr (tn @ '' '' @ name tv @ suffix @ ''['' @ join ''*'' (dim_names tv) @ '']'')))"
proof (intro conjI allI impI)
  fix a assume "ArrayVariable_init ext StructMemberVariable tv c prag = Inr a"
  then show "StructMemberVariable_init ext tv c prag None =
          Inl (AssertionError
                ''struct_name must be provided when creating StructMemberVariable'')"
    by (simp add: StructMemberVariable_init_def and_then_def)
next
  fix v show "StructMemberVariable_init ext tv c prag None \<noteq> Inr v"
    by (simp add: StructMemberVariable_init_def and_then_def split: sum.splits)
next
  fix v s assume h: "StructMemberVariable_init ext tv c prag (Some s) = Inr v"
  then obtain a where a: "ArrayVariable_init ext StructMemberVariable tv c prag = Inr a"
    and v: "v = a\<lparr>struct_name := Some s, member_name := Some (name a),
                  name := s @ ''.'' @ name a\<rparr>"
    by (auto simp add: StructMemberVariable_init_def and_then_def split: sum.splits)
  from ArrayVariable_init_result[OF a] obtain tn p where
    r: "type_name (var_type tv) = Inr tn" "var_type a = HLSType tn p" "name a = name tv"
       "dim_names a = dim_names tv"
    by blast
  show "name v = s @ ''.'' @ name tv" using v r by simp
  show "struct_name v = Some s" using v by simp
  show "member_name v = Some (name tv)" using v r by simp
  show "\<exists>tn. type_name (var_type tv) = Inr tn \<and>
           StructMemberVariable_definition_cpp v suffix r =
             Inr (tn @ '' '' @ name tv @ suffix @ ''['' @ join ''*'' (dim_names tv) @ '']'')"
    using v r by (simp add: StructMemberVariable_definition_cpp_def and_then_def size_cpp_def)
qed

theorem struct_member_construction_witness:
  "ArrayVariable_init sample_hls_types StructMemberVariable sample_tensor APTypeConverter
     ''hls_register''
     = Inr (sample_array\<lparr>var_class := StructMemberVariable\<rparr>) \<and>
   StructMemberVariable_init sample_hls_types sample_tensor APTypeConverter ''hls_register'' None
     = Inl (AssertionError ''struct_name must be provided when creating StructMemberVariable'') \<and>
   StructMemberVariable_init sample_hls_types sample_tensor APTypeConverter ''hls_register''
     (Some ''inputs'') = Inr sample_struct_member \<and>
   name sample_struct_member = ''inputs.x'' \<and>
   StructMemberVariable_definition_cpp sample_struct_member [] False
     = Inr ''x_t x[N_ROWS*N_COLS]''"
  using struct_member_construction[of sample_hls_types sample_tensor APTypeConverter
      "''hls_register''" "[]" False]
  by (simp add: eval_defs var_defs)

text \<open>
  Claim C8 as stated fails for the empty struct name: the construction succeeds, and the
  external name is \<open>.x\<close>.
\<close>

theorem struct_member_empty_name_counterexample:
  "StructMemberVariable_init sample_hls_types sample_tensor APTypeConverter ''hls_register''
     (Some [])
     = Inr (sample_struct_member\<lparr>name := ''.x'', struct_name := Some []\<rparr>)"
  by (simp add: eval_defs var_defs)

text \<open>
  Claim C9, as amended. A stream variable constructed from a tensor variable renders, in
  reference form, \<open>hls::stream<T> &N\<close> followed by the suffix and, in declaration form,
  \<open>hls::stream<T> N\<close>, the suffix and \<open>("N")\<close>, where \<open>T\<close> is the name of the tensor
  variable's type and \<open>N\<close> the \<open>cppname\<close> derived from the tensor variable's name.
\<close>

theorem stream_definition_cpp_text:
  "StreamVariable_init ext tv c n_pack depth = Inr v \<Longrightarrow>
   \<exists>tn. type_name (var_type tv) = Inr tn \<and>
     StreamVariable_definition_cpp v suffix True =
       Inr (''hls::stream<'' @ tn @ ''> &'' @ variable_cppname ext (name tv) @ suffix) \<and>
     StreamVariable_definition_cpp v suffix False =
       Inr (''hls::stream<'' @ tn @ ''> '' @ variable_cppname ext (name tv) @ suffix @
            ''('' @ dquote @ variable_cppname ext (name tv) @ dquote @ '')'')"
  by (auto simp add: StreamVariable_init_def TensorVariable_init_def and_then_def
      HLSTypeConverter_convert_def HLSPackedType_from_type_def last_item_def
      StreamVariable_definition_cpp_def Let_def split: sum.splits if_splits)

theorem stream_definition_cpp_text_witness:
  "StreamVariable_init sample_hls_types sample_tensor APTypeConverter 1 0 = Inr sample_stream \<and>
   StreamVariable_definition_cpp sample_stream ''_s'' True = Inr ''hls::stream<x_t> &x_s'' \<and>
   StreamVariable_definition_cpp sample_stream ''_s'' False
     = Inr (''hls::stream<x_t> x_s('' @ dquote @ ''x'' @ dquote @ '')'')"
  using stream_definition_cpp_text[of sample_hls_types sample_tensor APTypeConverter 1 0
      sample_stream "''_s''"]
  by (simp add: eval_defs var_defs)

text \<open>
  Claim C9 as stated fails: the rendered text starts with \<open>hls::stream<\<close>, not with
  \<open>stream<\<close>, in both forms.
\<close>

theorem stream_text_counterexample:
  "and_then (StreamVariable_init sample_hls_types sample_tensor APTypeConverter 1 0)
     (\<lambda>v. StreamVariable_definition_cpp v ''_s'' True) = Inr ''hls::stream<x_t> &x_s'' \<and>
   and_then (StreamVariable_init sample_hls_types sample_tensor APTypeConverter 1 0)
     (\<lambda>v. StreamVariable_definition_cpp v ''_s'' True) \<noteq> Inr ''stream<x_t> &x_s'' \<and>
   and_then (StreamVariable_init sample_hls_types sample_tensor APTypeConverter 1 0)
     (\<lambda>v. StreamVariable_definition_cpp v ''_s'' False)
     = Inr (''hls::stream<x_t> x_s('' @ dquote @ ''x'' @ dquote @ '')'') \<and>
   and_then (StreamVariable_init sample_hls_types sample_tensor APTypeConverter 1 0)
     (\<lambda>v. StreamVariable_definition_cpp v ''_s'' False)
     \<noteq> Inr (''stream<x_t> x_s('' @ dquote @ ''x'' @ dquote @ '')'')"
  by (simp add: eval_defs var_defs)

end
